theory Spec2Isabelle
  imports Main
begin

section \<open>Strings\<close>

text \<open>
  A JavaScript string is a sequence of UTF-16 code units. A HOL \<open>char\<close> stands for the
  code unit of the same number, so the model covers the strings over U+0000 .. U+00FF;
  on these, the character classes, the line terminators, \<open>trim\<close> and \<open>toLowerCase\<close>
  below are the ones of ECMAScript.
\<close>

definition codeUnit :: "char \<Rightarrow> nat" where
  "codeUnit c = of_char c"

text \<open>The classes \<open>[a-z]\<close>, \<open>[A-Z]\<close> and \<open>[0-9]\<close> of the regular expression.\<close>

definition lowercase :: "char \<Rightarrow> bool" where
  "lowercase c = (97 \<le> codeUnit c \<and> codeUnit c \<le> 122)"

definition uppercase :: "char \<Rightarrow> bool" where
  "uppercase c = (65 \<le> codeUnit c \<and> codeUnit c \<le> 90)"

definition digit :: "char \<Rightarrow> bool" where
  "digit c = (48 \<le> codeUnit c \<and> codeUnit c \<le> 57)"

text \<open>
  The dot of a regular expression without the \<open>s\<close> flag matches every character but a
  line terminator: LF and CR (U+2028 and U+2029 lie outside the modelled range).
\<close>

definition lineTerminator :: "char \<Rightarrow> bool" where
  "lineTerminator c = (codeUnit c = 10 \<or> codeUnit c = 13)"

text \<open>
  What \<open>String.prototype.trim\<close> strips: TAB, LF, VT, FF, CR, SP and NBSP.
\<close>

definition whiteSpace :: "char \<Rightarrow> bool" where
  "whiteSpace c = (codeUnit c \<in> {9, 10, 11, 12, 13, 32, 160})"

definition trim :: "string \<Rightarrow> string" where
  "trim s = rev (dropWhile whiteSpace (rev (dropWhile whiteSpace s)))"

text \<open>
  \<open>String.prototype.toLowerCase\<close>: A .. Z and the Latin-1 capitals U+00C0 .. U+00DE
  (U+00D7, the multiplication sign, apart) move up by 32; nothing else changes.
\<close>

definition lowerChar :: "char \<Rightarrow> char" where
  "lowerChar c =
     (if uppercase c then char_of (codeUnit c + 32)
      else if 192 \<le> codeUnit c \<and> codeUnit c \<le> 222 \<and> codeUnit c \<noteq> 215
        then char_of (codeUnit c + 32)
      else c)"

definition toLowerCase :: "string \<Rightarrow> string" where
  "toLowerCase s = map lowerChar s"

text \<open>JavaScript truthiness of a value that is a string or \<open>undefined\<close>.\<close>

fun truthy :: "string option \<Rightarrow> bool" where
  "truthy None = False"
| "truthy (Some s) = (s \<noteq> [])"

section \<open>The password policy\<close>

text \<open>
  \<^verbatim>\<open>^(((?=.*[a-z])(?=.*[A-Z]))|((?=.*[a-z])(?=.*[0-9]))|((?=.*[A-Z])(?=.*[0-9])))(?=.{6,})\<close>

  The expression is anchored at the start and only looks ahead. \<open>(?=.*[c])\<close> holds at
  the start of a string when a character of the class stands after a run of characters
  that the dot matches, that is, before the first line terminator.
\<close>

fun lookahead :: "(char \<Rightarrow> bool) \<Rightarrow> string \<Rightarrow> bool" where
  "lookahead cls [] = False"
| "lookahead cls (c # cs) =
     (if cls c then True else if lineTerminator c then False else lookahead cls cs)"

text \<open>\<open>(?=.{6,})\<close>: the first six characters are there and the dot matches each.\<close>

definition sixOrMore :: "string \<Rightarrow> bool" where
  "sixOrMore s = (6 \<le> length s \<and> \<not> list_ex lineTerminator (take 6 s))"

text \<open>\<open>mediumPassword.test(val)\<close>\<close>

definition mediumPassword :: "string \<Rightarrow> bool" where
  "mediumPassword val =
     (((lookahead lowercase val \<and> lookahead uppercase val)
       \<or> (lookahead lowercase val \<and> lookahead digit val)
       \<or> (lookahead uppercase val \<and> lookahead digit val))
      \<and> sixOrMore val)"

section \<open>Input schemas\<close>

text \<open>
  The outcome of parsing one field with zod: the parsed value, the issues zod collected,
  or the \<open>Error\<close> that a refinement threw (which leaves the parse at once).
\<close>

datatype 'a parsed = Parsed 'a | Issues "string list" | Thrown string

text \<open>
  \<open>passwordSchema(errorMessage)\<close> is \<open>z.string().nonempty().max(40).refine(...)\<close>. A raw
  value that is no string (\<open>None\<close>) is an issue. The length checks only record issues,
  so the refinement runs on every string, and throws where the expression does not match.
\<close>

definition passwordSchema :: "string \<Rightarrow> string option \<Rightarrow> string parsed" where
  "passwordSchema errorMessage raw =
     (case raw of
        None \<Rightarrow> Issues [''Required'']
      | Some val \<Rightarrow>
          (let issues = (if length val < 1 then [''too_small''] else [])
                      @ (if 40 < length val then [''too_big''] else [])
           in if \<not> mediumPassword val then Thrown errorMessage
              else if issues \<noteq> [] then Issues issues
              else Parsed val))"

text \<open>The password classifier: a candidate is accepted when the schema parses it.\<close>

definition accepted :: "string \<Rightarrow> bool" where
  "accepted val = (passwordSchema ''password does not meet the requirements!'' (Some val) = Parsed val)"

section \<open>The stores and the outside world\<close>

datatype role = ADMIN | USER

text \<open>A row of the user table, with the columns the procedures read and write.\<close>

record user =
  user_id :: nat
  name :: string
  email :: string
  lastLogin :: string
  role :: role
  hash :: string

record template =
  subject :: string
  body :: string

text \<open>The row of the \<open>globalOptions\<close> table that the procedures read.\<close>

record global_options =
  enableRegistration :: bool
  userRegistrationNotification :: bool
  notificationTemplate :: "template option"
  forgotPasswordTemplate :: "template option"
  smtpEmail :: string

record mail =
  mail_from :: string
  mail_to :: string
  mail_subject :: string
  mail_html :: string

datatype trpc_code = BAD_REQUEST | NOT_FOUND | INTERNAL_SERVER_ERROR

text \<open>
  What a procedure throws: a \<open>TRPCError\<close> with its code and message; a \<open>ZodError\<close> with
  its issues (tRPC hands it to the caller as a \<open>BAD_REQUEST\<close>); any other JavaScript
  error (a \<open>TypeError\<close>, a \<open>JsonWebTokenError\<close>, a failed delivery).
\<close>

datatype failure = TRPCError trpc_code string | ZodError "string list" | JsError string

text \<open>
  The state the procedures act on: the user table in the order of insertion, the row
  of \<open>globalOptions\<close> with id 1 (if there is one), the mails handed to the transport,
  and what \<open>console.error\<close> has printed.
\<close>

record world =
  users :: "user list"
  options :: "global_options option"
  outbox :: "mail list"
  console :: "failure list"

record jwt_payload =
  pl_id :: "nat option"
  pl_email :: "string option"

text \<open>
  The libraries and the surroundings of one call, as parameters: zod's \<open>email()\<close> check,
  \<open>bcryptjs\<close> (\<open>hashSync\<close> with the salt it draws for this call, \<open>compareSync\<close>),
  \<open>jsonwebtoken\<close> (\<open>sign\<close>, \<open>decode\<close>, which returns \<open>null\<close> on a string that is no
  token, and \<open>verify\<close> at the time of the call, \<open>False\<close> where it throws), \<open>ejs.render\<close>
  followed by \<open>JSON.parse\<close> (\<open>None\<close> where either throws), the mail transport (\<open>False\<close>
  where \<open>sendEmail\<close> throws), the clock, \<open>process.env.NEXTAUTH_URL\<close>, and the two
  built-in templates of the mail module. \<open>createTransporter\<close> of the mail module, which
  is not among the sources, only builds the handle that \<open>sendEmail\<close> takes (the spec:
  \<open>createTransporter(options) -> transportHandle\<close>), so it does not show in the model.
\<close>

record env =
  z_email :: "string \<Rightarrow> bool"
  bcrypt_hashSync :: "string \<Rightarrow> string"
  bcrypt_compareSync :: "string \<Rightarrow> string \<Rightarrow> bool"
  jwt_sign :: "jwt_payload \<Rightarrow> string \<Rightarrow> string \<Rightarrow> string"
  jwt_decode :: "string \<Rightarrow> jwt_payload option"
  jwt_verify :: "string \<Rightarrow> string \<Rightarrow> bool"
  ejs_render :: "template \<Rightarrow> (string \<times> string) list \<Rightarrow> template option"
  sendEmail :: "mail \<Rightarrow> bool"
  now :: string
  NEXTAUTH_URL :: string
  notificationTemplate_default :: template
  forgotPasswordTemplate_default :: template

text \<open>\<open>ctx.session\<close> of a protected procedure: the session of an authenticated user.\<close>

record session =
  session_user_id :: nat

text \<open>
  \<open>prisma.user.findFirst\<close>: the first row that satisfies the filter. A filter such as
  \<open>{ email: email }\<close> is equality of strings, character for character (the default
  mode of a Prisma string filter).
\<close>

definition findFirst :: "('a \<Rightarrow> bool) \<Rightarrow> 'a list \<Rightarrow> 'a option" where
  "findFirst P rows = find P rows"

text \<open>The id the database gives a new row: one more than the largest id in use.\<close>

definition nextId :: "user list \<Rightarrow> nat" where
  "nextId rows = Suc (fold max (map user_id rows) 0)"

text \<open>
  \<open>prisma.user.update({ where: { id }, data })\<close>: the row with this id (ids are unique,
  so the first one) is rewritten, every other row is kept.
\<close>

fun updateWhereId :: "nat \<Rightarrow> (user \<Rightarrow> user) \<Rightarrow> user list \<Rightarrow> user list" where
  "updateWhereId i f [] = []"
| "updateWhereId i f (u # us) =
     (if user_id u = i then f u # us else u # updateWhereId i f us)"

text \<open>
  Modelled from the spec: \<open>throwError\<close> of \<open>~/server/helpers/errorHandler\<close>, which is not
  among the sources. The spec reports its failures as \<open>BAD_REQUEST\<close> failures with
  the given message.
\<close>

definition throwError :: "string \<Rightarrow> failure" where
  "throwError message = TRPCError BAD_REQUEST message"

subsection \<open>Parsing the fields of an input\<close>

definition thrown :: "'a parsed \<Rightarrow> string list" where
  "thrown p = (case p of Thrown m \<Rightarrow> [m] | _ \<Rightarrow> [])"

definition issues :: "'a parsed \<Rightarrow> string list" where
  "issues p = (case p of Issues is \<Rightarrow> is | _ \<Rightarrow> [])"

definition parsedValue :: "'a parsed \<Rightarrow> 'a option" where
  "parsedValue p = (case p of Parsed v \<Rightarrow> Some v | _ \<Rightarrow> None)"

text \<open>
  How a failed parse of an object leaves the procedure: with the first \<open>Error\<close> a
  refinement threw (tRPC reports its message as a \<open>BAD_REQUEST\<close>), otherwise with the
  \<open>ZodError\<close> of all issues.
\<close>

definition parseFailure :: "string list \<Rightarrow> string list \<Rightarrow> failure" where
  "parseFailure ts is = (case ts of m # _ \<Rightarrow> TRPCError BAD_REQUEST m | [] \<Rightarrow> ZodError is)"

text \<open>\<open>z.string().email().transform((val) => val.trim())\<close>\<close>

definition emailSchema :: "env \<Rightarrow> string option \<Rightarrow> string parsed" where
  "emailSchema e raw =
     (case raw of
        None \<Rightarrow> Issues [''Required'']
      | Some val \<Rightarrow> if z_email e val then Parsed (trim val) else Issues [''invalid_string''])"

text \<open>\<open>z.string().min(3).max(40)\<close>\<close>

definition nameSchema :: "string option \<Rightarrow> string parsed" where
  "nameSchema raw =
     (case raw of
        None \<Rightarrow> Issues [''Required'']
      | Some val \<Rightarrow>
          (let issues = (if length val < 3 then [''too_small''] else [])
                      @ (if 40 < length val then [''too_big''] else [])
           in if issues \<noteq> [] then Issues issues else Parsed val))"

text \<open>\<open>schema.optional()\<close>: \<open>undefined\<close> parses to \<open>undefined\<close>.\<close>

definition optional :: "(string option \<Rightarrow> string parsed) \<Rightarrow> string option \<Rightarrow> string option parsed" where
  "optional schema raw =
     (case raw of
        None \<Rightarrow> Parsed None
      | Some val \<Rightarrow>
          (case schema (Some val) of
             Parsed v \<Rightarrow> Parsed (Some v)
           | Issues is \<Rightarrow> Issues is
           | Thrown m \<Rightarrow> Thrown m))"

text \<open>\<open>schema.transform((val) => val.trim())\<close>\<close>

definition trimmed :: "(string option \<Rightarrow> string parsed) \<Rightarrow> string option \<Rightarrow> string parsed" where
  "trimmed schema raw =
     (case schema raw of
        Parsed v \<Rightarrow> Parsed (trim v)
      | Issues is \<Rightarrow> Issues is
      | Thrown m \<Rightarrow> Thrown m)"

section \<open>The procedures of the router\<close>

subsection \<open>me\<close>

text \<open>
  The procedure awaits the lookup of the session's user and ends without a \<open>return\<close>.
  The model gives both values: what the lookup yields, and what the caller receives
  (\<open>None\<close> for \<open>undefined\<close>).
\<close>

definition me :: "world \<Rightarrow> session \<Rightarrow> user option \<times> user option" where
  "me w sess =
     (let awaited = findFirst (\<lambda>u. user_id u = session_user_id sess) (users w)
      in (awaited, None))"

subsection \<open>register\<close>

record register_input =
  r_email :: "string option"
  r_password :: "string option"
  r_name :: "string option"

text \<open>The parsed input: email (trimmed), password, name.\<close>

definition parseRegister :: "env \<Rightarrow> register_input \<Rightarrow> failure + (string \<times> string \<times> string)" where
  "parseRegister e inp =
     (let pe = emailSchema e (r_email inp);
          pp = passwordSchema ''password does not meet the requirements!'' (r_password inp);
          pn = nameSchema (r_name inp)
      in case (parsedValue pe, parsedValue pp, parsedValue pn) of
           (Some em, Some pw, Some nm) \<Rightarrow> Inr (em, pw, nm)
         | _ \<Rightarrow> Inl (parseFailure (thrown pe @ thrown pp @ thrown pn)
                                  (issues pe @ issues pp @ issues pn)))"

text \<open>
  The loop over the admin users: a template that does not render leaves the procedure
  with the error; a mail that the transport refuses is logged, and the loop goes on.
\<close>

fun notifyAdmins ::
  "env \<Rightarrow> global_options \<Rightarrow> template \<Rightarrow> string \<Rightarrow> string \<Rightarrow> user list \<Rightarrow> world
   \<Rightarrow> failure option \<times> world" where
  "notifyAdmins e g t nm em [] w = (None, w)"
| "notifyAdmins e g t nm em (adminEmail # rest) w =
     (case ejs_render e t
             [(''toName'', name adminEmail),
              (''notificationMessage'',
               ''A new user with the name '' @ nm @ '' and email '' @ em
                 @ '' has just registered!'')] of
        None \<Rightarrow> (Some (JsError ''template''), w)
      | Some parsedTemplate \<Rightarrow>
          (let mailOptions =
                 \<lparr>mail_from = smtpEmail g, mail_to = email adminEmail,
                  mail_subject = subject parsedTemplate, mail_html = body parsedTemplate\<rparr>
           in if sendEmail e mailOptions
              then notifyAdmins e g t nm em rest (w\<lparr>outbox := outbox w @ [mailOptions]\<rparr>)
              else notifyAdmins e g t nm em rest
                     (w\<lparr>console := console w @ [JsError ''sendEmail'']\<rparr>)))"

text \<open>
  What \<open>register\<close> returns: \<open>{ user: newUser }\<close>, or, on an empty email, the \<open>Error\<close>
  object that line 75 returns (and does not throw).
\<close>

datatype register_result = Created user | ReturnedError string

text \<open>
  The block that notifies the admins, when the options ask for it: the error that
  leaves it (if any) and the state after it.
\<close>

definition notifyRegistration ::
  "env \<Rightarrow> global_options \<Rightarrow> string \<Rightarrow> string \<Rightarrow> world \<Rightarrow> failure option \<times> world" where
  "notifyRegistration e g nm em w =
     (if userRegistrationNotification g
      then notifyAdmins e g
             (case notificationTemplate g of
                None \<Rightarrow> notificationTemplate_default e | Some t \<Rightarrow> t)
             nm em (filter (\<lambda>u. role u = ADMIN) (users w)) w
      else (None, w))"

text \<open>From the count of the users to the end of the procedure.\<close>

definition createUser ::
  "env \<Rightarrow> world \<Rightarrow> global_options \<Rightarrow> string \<Rightarrow> string \<Rightarrow> string
   \<Rightarrow> (failure + register_result) \<times> world" where
  "createUser e w g em pw nm =
     (let userCount = length (users w);
          newUser = \<lparr>user_id = nextId (users w), name = nm, email = em, lastLogin = now e,
                     role = (if userCount = 0 then ADMIN else USER),
                     hash = bcrypt_hashSync e pw\<rparr>
      in case notifyRegistration e g nm em (w\<lparr>users := users w @ [newUser]\<rparr>) of
           (Some f, w2) \<Rightarrow> (Inl f, w2)
         | (None, w2) \<Rightarrow> (Inr (Created newUser), w2))"

text \<open>
  The procedure, from the parse of its input on. Reading \<open>settings.enableRegistration\<close>
  throws a \<open>TypeError\<close> where there is no row of options. Line 76 parses an email that
  line 75 has found not empty, so it neither throws nor returns. The options that the
  notification block reads again are the row read at the start.
\<close>

definition register :: "env \<Rightarrow> world \<Rightarrow> register_input \<Rightarrow> (failure + register_result) \<times> world" where
  "register e w inp =
     (case parseRegister e inp of
        Inl f \<Rightarrow> (Inl f, w)
      | Inr (em, pw, nm) \<Rightarrow>
          (case options w of
             None \<Rightarrow> (Inl (JsError ''TypeError''), w)
           | Some settings \<Rightarrow>
               if \<not> enableRegistration settings
               then (Inl (TRPCError BAD_REQUEST
                       ''Registration is disabled! Please contact the administrator.''), w)
               else if em = [] then (Inr (ReturnedError ''Email required!''), w)
               else (case findFirst (\<lambda>u. email u = em) (users w) of
                       Some registerUser \<Rightarrow>
                         (Inl (TRPCError NOT_FOUND
                            (''email '' @ [CHR 0x22] @ em @ [CHR 0x22] @ '' already taken'')), w)
                     | None \<Rightarrow>
                         if pw \<noteq> [] \<and> \<not> mediumPassword pw
                         then (Inl (TRPCError BAD_REQUEST
                                 ''Password does not meet the requirements!''), w)
                         else createUser e w settings em pw nm)))"

subsection \<open>update\<close>

record update_input =
  u_email :: "string option"
  u_password :: "string option"
  u_newPassword :: "string option"
  u_repeatNewPassword :: "string option"
  u_name :: "string option"

text \<open>\<open>z.string().nonempty().max(40)\<close>\<close>

definition shortNameSchema :: "string option \<Rightarrow> string parsed" where
  "shortNameSchema raw =
     (case raw of
        None \<Rightarrow> Issues [''Required'']
      | Some val \<Rightarrow>
          (let issues = (if length val < 1 then [''too_small''] else [])
                      @ (if 40 < length val then [''too_big''] else [])
           in if issues \<noteq> [] then Issues issues else Parsed val))"

text \<open>The parsed input has the fields of the raw one: email and passwords trimmed.\<close>

definition parseUpdate :: "env \<Rightarrow> update_input \<Rightarrow> failure + update_input" where
  "parseUpdate e inp =
     (let pe = optional (emailSchema e) (u_email inp);
          pp = optional (trimmed (passwordSchema
                 ''Current password does not meet the requirements!'')) (u_password inp);
          pn = optional (trimmed (passwordSchema
                 ''New Password does not meet the requirements!'')) (u_newPassword inp);
          pr = optional (trimmed (passwordSchema
                 ''Repeat NewPassword does not meet the requirements!''))
                 (u_repeatNewPassword inp);
          pm = optional shortNameSchema (u_name inp)
      in case (parsedValue pe, parsedValue pp, parsedValue pn, parsedValue pr, parsedValue pm) of
           (Some em, Some pw, Some np, Some rp, Some nm) \<Rightarrow>
             Inr \<lparr>u_email = em, u_password = pw, u_newPassword = np,
                  u_repeatNewPassword = rp, u_name = nm\<rparr>
         | _ \<Rightarrow> Inl (parseFailure
                      (thrown pe @ thrown pp @ thrown pn @ thrown pr @ thrown pm)
                      (issues pe @ issues pp @ issues pn @ issues pr @ issues pm)))"

text \<open>
  \<open>prisma.user.update\<close> at the end of the procedure: \<open>a || b\<close> is \<open>a\<close> where \<open>a\<close> is
  truthy (a string that is not empty) and \<open>b\<close> otherwise.
\<close>

definition orElse :: "string option \<Rightarrow> string \<Rightarrow> string" where
  "orElse a b = (case a of None \<Rightarrow> b | Some s \<Rightarrow> if s \<noteq> [] then s else b)"

definition writeUser :: "env \<Rightarrow> world \<Rightarrow> user \<Rightarrow> update_input \<Rightarrow> world" where
  "writeUser e w usr input =
     w\<lparr>users := updateWhereId (user_id usr)
          (\<lambda>row. row\<lparr>email := orElse (u_email input) (email usr),
                      name := orElse (u_name input) (name usr),
                      hash := (case u_newPassword input of
                                 None \<Rightarrow> hash usr
                               | Some np \<Rightarrow>
                                   if np \<noteq> [] then bcrypt_hashSync e np else hash usr)\<rparr>)
          (users w)\<rparr>"

text \<open>
  The procedure returns nothing. Past the check that all three fields are filled, each
  of them is a string, which \<open>the\<close> reads.
\<close>

definition update :: "env \<Rightarrow> world \<Rightarrow> session \<Rightarrow> update_input \<Rightarrow> (failure + unit) \<times> world" where
  "update e w sess inp =
     (case parseUpdate e inp of
        Inl f \<Rightarrow> (Inl f, w)
      | Inr input \<Rightarrow>
          (case findFirst (\<lambda>u. user_id u = session_user_id sess) (users w) of
             None \<Rightarrow> (Inl (TRPCError NOT_FOUND ''User not found!''), w)
           | Some usr \<Rightarrow>
               if truthy (u_newPassword input) \<or> truthy (u_repeatNewPassword input)
                  \<or> truthy (u_password input)
               then
                 if \<not> truthy (u_newPassword input) \<or> \<not> truthy (u_repeatNewPassword input)
                    \<or> \<not> truthy (u_password input)
                 then (Inl (TRPCError BAD_REQUEST ''Please fill all fields!''), w)
                 else if \<not> mediumPassword (the (u_newPassword input))
                 then (Inl (TRPCError BAD_REQUEST ''Password does not meet the requirements!''), w)
                 else if \<not> bcrypt_compareSync e (the (u_password input)) (hash usr)
                 then (Inl (TRPCError BAD_REQUEST ''Old password is incorrect!''), w)
                 else if the (u_newPassword input) \<noteq> the (u_repeatNewPassword input)
                 then (Inl (TRPCError BAD_REQUEST ''Passwords do not match!''), w)
                 else (Inr (), writeUser e w usr input)
               else (Inr (), writeUser e w usr input)))"

subsection \<open>passwordResetLink\<close>

text \<open>
  The token of the reset link: \<open>jwt.sign({ id: user.id, email: user.email }, user.hash,
  { expiresIn: "15m" })\<close>.
\<close>

definition validationToken :: "env \<Rightarrow> user \<Rightarrow> string" where
  "validationToken e usr =
     jwt_sign e \<lparr>pl_id = Some (user_id usr), pl_email = Some (email usr)\<rparr> (hash usr) ''15m''"

text \<open>
  For a user that exists: the token is signed, the mail is rendered and sent, and the
  procedure ends without a \<open>return\<close> (\<open>None\<close> for \<open>undefined\<close>). \<open>jwt.sign\<close> throws on a
  secret that is empty (\<open>secretOrPrivateKey must have a value\<close>). Where \<open>globalOptions\<close>
  is \<open>null\<close>, reading \<open>globalOptions.smtpEmail\<close> throws a \<open>TypeError\<close>; where the
  transport refuses the mail, the error of \<open>sendEmail\<close> leaves the procedure.
\<close>

definition sendResetMail :: "env \<Rightarrow> world \<Rightarrow> string \<Rightarrow> user \<Rightarrow> (failure + string option) \<times> world" where
  "sendResetMail e w em usr =
     (if hash usr = [] then (Inl (JsError ''secretOrPrivateKey must have a value''), w)
      else
       (let forgotLink = NEXTAUTH_URL e @ ''/login/forgotpassword?token='' @ validationToken e usr;
            t = (case options w of
                   None \<Rightarrow> forgotPasswordTemplate_default e
                 | Some g \<Rightarrow>
                     (case forgotPasswordTemplate g of
                        None \<Rightarrow> forgotPasswordTemplate_default e
                      | Some t \<Rightarrow> t))
        in case ejs_render e t [(''toEmail'', em), (''forgotLink'', forgotLink)] of
             None \<Rightarrow> (Inl (JsError ''template''), w)
           | Some parsedTemplate \<Rightarrow>
               (case options w of
                  None \<Rightarrow> (Inl (JsError ''TypeError''), w)
                | Some g \<Rightarrow>
                    (let mailOptions =
                           \<lparr>mail_from = smtpEmail g, mail_to = em,
                            mail_subject = subject parsedTemplate,
                            mail_html = body parsedTemplate\<rparr>
                     in if sendEmail e mailOptions
                        then (Inr None, w\<lparr>outbox := outbox w @ [mailOptions]\<rparr>)
                        else (Inl (JsError ''sendEmail''), w)))))"

text \<open>
  \<open>z.string({ required_error: "Email is required!" }).email().transform((val) =>
  val.trim())\<close>: the schema of an email, with the issue of a missing value worded.
\<close>

definition requiredEmailSchema :: "env \<Rightarrow> string option \<Rightarrow> string parsed" where
  "requiredEmailSchema e raw =
     (case raw of
        None \<Rightarrow> Issues [''Email is required!'']
      | Some val \<Rightarrow> emailSchema e (Some val))"

definition passwordResetLink :: "env \<Rightarrow> world \<Rightarrow> string option \<Rightarrow> (failure + string option) \<times> world" where
  "passwordResetLink e w raw =
     (case requiredEmailSchema e raw of
        Issues is \<Rightarrow> (Inl (ZodError is), w)
      | Thrown m \<Rightarrow> (Inl (TRPCError BAD_REQUEST m), w)
      | Parsed em \<Rightarrow>
          if em = [] then (Inl (throwError ''Email is required!''), w)
          else (case findFirst (\<lambda>u. email u = toLowerCase em) (users w) of
                  None \<Rightarrow> (Inr (Some ''Mail sent if email exist!''), w)
                | Some usr \<Rightarrow> sendResetMail e w em usr))"

subsection \<open>changePasswordFromJwt\<close>

record change_input =
  c_token :: "string option"
  c_password :: "string option"
  c_newPassword :: "string option"

text \<open>The parsed input: token, password, newPassword.\<close>

definition parseChange :: "change_input \<Rightarrow> failure + (string \<times> string \<times> string)" where
  "parseChange inp =
     (let pt = (case c_token inp of
                  None \<Rightarrow> Issues [''Token is required!'']
                | Some t \<Rightarrow> Parsed t);
          pp = passwordSchema ''password does not meet the requirements!'' (c_password inp);
          pn = passwordSchema ''password does not meet the requirements!'' (c_newPassword inp)
      in case (parsedValue pt, parsedValue pp, parsedValue pn) of
           (Some t, Some pw, Some np) \<Rightarrow> Inr (t, pw, np)
         | _ \<Rightarrow> Inl (parseFailure (thrown pt @ thrown pp @ thrown pn)
                                  (issues pt @ issues pp @ issues pn)))"

text \<open>
  The body of the \<open>try\<close> block: what it returns (the updated row) with the new state,
  or what it throws. \<open>!id\<close> holds for a missing id and for 0; destructuring the
  \<open>null\<close> that \<open>jwt.decode\<close> returns throws a \<open>TypeError\<close>; \<open>jwt.verify\<close> throws where
  the signature or the expiry does not check.
\<close>

definition tryChange :: "env \<Rightarrow> world \<Rightarrow> string \<Rightarrow> string \<Rightarrow> failure + (user \<times> world)" where
  "tryChange e w token password =
     (case jwt_decode e token of
        None \<Rightarrow> Inl (JsError ''TypeError'')
      | Some payload \<Rightarrow>
          (case pl_id payload of
             None \<Rightarrow> Inl (throwError ''This link is not valid!'')
           | Some i \<Rightarrow>
               if i = 0 then Inl (throwError ''This link is not valid!'')
               else (case findFirst (\<lambda>u. user_id u = i) (users w) of
                       None \<Rightarrow> Inl (throwError ''Something went wrong!'')
                     | Some usr \<Rightarrow>
                         if hash usr = [] then Inl (throwError ''Something went wrong!'')
                         else if \<not> jwt_verify e token (hash usr)
                         then Inl (JsError ''JsonWebTokenError'')
                         else Inr (usr\<lparr>hash := bcrypt_hashSync e password\<rparr>,
                                   w\<lparr>users := updateWhereId i
                                        (\<lambda>row. row\<lparr>hash := bcrypt_hashSync e password\<rparr>)
                                        (users w)\<rparr>))))"

text \<open>
  The \<open>catch\<close> block prints the error it caught and throws the generic one in its place.
\<close>

definition changePasswordFromJwt :: "env \<Rightarrow> world \<Rightarrow> change_input \<Rightarrow> (failure + user) \<times> world" where
  "changePasswordFromJwt e w inp =
     (case parseChange inp of
        Inl f \<Rightarrow> (Inl f, w)
      | Inr (token, password, newPassword) \<Rightarrow>
          if token = [] then (Inl (throwError ''token is required!''), w)
          else if password \<noteq> newPassword then (Inl (throwError ''Passwords does not match!''), w)
          else (case tryChange e w token password of
                  Inr (usr, w') \<Rightarrow> (Inr usr, w')
                | Inl error \<Rightarrow>
                    (Inl (throwError ''token is not valid, please try again!''),
                     w\<lparr>console := console w @ [error]\<rparr>)))"

section \<open>The HTTP handler that creates a user\<close>

record request =
  req_method :: string
  x_zt1_auth :: "string option"
  req_body :: register_input

datatype json =
  End | Json_error string | Json_cause "string list" | Json_user register_result

record response =
  status :: nat
  payload :: json

definition verifyApiKey :: "string \<Rightarrow> bool" where
  "verifyApiKey key = (key = ''secret'')"

text \<open>
  \<open>getHTTPStatusCodeFromError\<close> of tRPC, on the codes of this router; the caller of a
  procedure receives every other error as an \<open>INTERNAL_SERVER_ERROR\<close>.
\<close>

fun getHTTPStatusCodeFromError :: "failure \<Rightarrow> nat" where
  "getHTTPStatusCodeFromError (TRPCError BAD_REQUEST m) = 400"
| "getHTTPStatusCodeFromError (TRPCError NOT_FOUND m) = 404"
| "getHTTPStatusCodeFromError (TRPCError INTERNAL_SERVER_ERROR m) = 500"
| "getHTTPStatusCodeFromError (ZodError is) = 400"
| "getHTTPStatusCodeFromError (JsError m) = 500"

text \<open>
  The message of a \<open>ZodError\<close> is the JSON text of its issues, which \<open>JSON.parse\<close> reads
  back; no other message of \<open>register\<close> is JSON text.
\<close>

fun errorBody :: "failure \<Rightarrow> json" where
  "errorBody (ZodError is) = Json_cause is"
| "errorBody (TRPCError c m) = Json_error m"
| "errorBody (JsError m) = Json_error m"

text \<open>
  The handler gives the response, the new state, and the inputs with which it called
  \<open>register\<close> (none or one).
\<close>

definition createUserHandler :: "env \<Rightarrow> world \<Rightarrow> request \<Rightarrow> response \<times> world \<times> register_input list" where
  "createUserHandler e w req =
     (if req_method req \<noteq> ''POST'' then (\<lparr>status = 405, payload = End\<rparr>, w, [])
      else (case x_zt1_auth req of
              None \<Rightarrow> (\<lparr>status = 401, payload = Json_error ''Unauthorized''\<rparr>, w, [])
            | Some apiKey \<Rightarrow>
                if apiKey = [] \<or> \<not> verifyApiKey apiKey
                then (\<lparr>status = 401, payload = Json_error ''Unauthorized''\<rparr>, w, [])
                else (case register e w (req_body req) of
                        (Inr usr, w') \<Rightarrow>
                          (\<lparr>status = 200, payload = Json_user usr\<rparr>, w', [req_body req])
                      | (Inl cause, w') \<Rightarrow>
                          (\<lparr>status = getHTTPStatusCodeFromError cause,
                            payload = errorBody cause\<rparr>, w', [req_body req]))))"

section \<open>A concrete world\<close>

text \<open>
  Small stand-ins for the libraries, on which the procedures can be run: an email is a
  string with an \<open>@\<close>; the hash of a password is the password behind the mark \<open>h:\<close>; a
  token is the user id in unary (one stroke more than the id, and no stroke for claims
  without an id), a dot, and the secret it was signed with.
\<close>

definition toyEnv :: env where
  "toyEnv =
     \<lparr>z_email = (\<lambda>s. List.member s CHR ''@''),
      bcrypt_hashSync = (\<lambda>p. ''h:'' @ p),
      bcrypt_compareSync = (\<lambda>p h. h = ''h:'' @ p),
      jwt_sign = (\<lambda>p secret expiresIn.
         replicate (case pl_id p of None \<Rightarrow> 0 | Some n \<Rightarrow> Suc n) CHR ''i'' @ ''.'' @ secret),
      jwt_decode = (\<lambda>t.
         if List.member t CHR ''.''
         then Some \<lparr>pl_id = (case length (takeWhile (\<lambda>c. c \<noteq> CHR ''.'') t) of
                                0 \<Rightarrow> None | Suc n \<Rightarrow> Some n),
                     pl_email = None\<rparr>
         else None),
      jwt_verify = (\<lambda>t secret. dropWhile (\<lambda>c. c \<noteq> CHR ''.'') t = ''.'' @ secret),
      ejs_render = (\<lambda>t vars. Some \<lparr>subject = subject t, body = body t @ concat (map snd vars)\<rparr>),
      sendEmail = (\<lambda>m. True),
      now = ''2023-05-01T10:00:00.000Z'',
      NEXTAUTH_URL = ''http://localhost:3000'',
      notificationTemplate_default = \<lparr>subject = ''New user'', body = ''Hello ''\<rparr>,
      forgotPasswordTemplate_default = \<lparr>subject = ''Reset'', body = ''Link: ''\<rparr>\<rparr>"

definition ann :: user where
  "ann = \<lparr>user_id = 1, name = ''Ann'', email = ''a@x.com'',
          lastLogin = ''2023-05-01T10:00:00.000Z'', role = ADMIN, hash = ''h:Abc123''\<rparr>"

definition openOptions :: global_options where
  "openOptions =
     \<lparr>enableRegistration = True, userRegistrationNotification = False,
      notificationTemplate = None, forgotPasswordTemplate = None,
      smtpEmail = ''noreply@x.com''\<rparr>"

definition emptyWorld :: world where
  "emptyWorld = \<lparr>users = [], options = Some openOptions, outbox = [], console = []\<rparr>"

definition annWorld :: world where
  "annWorld = \<lparr>users = [ann], options = Some openOptions, outbox = [], console = []\<rparr>"

definition closedWorld :: world where
  "closedWorld =
     \<lparr>users = [ann], options = Some (openOptions\<lparr>enableRegistration := False\<rparr>),
      outbox = [], console = []\<rparr>"

text \<open>A password of seven characters, of all three classes, with a line feed in it.\<close>

definition lineBreakPassword :: string where
  "lineBreakPassword = ''Ab1'' @ [CHR 0x0A] @ ''def''"

definition annInput :: register_input where
  "annInput = \<lparr>r_email = Some ''a@x.com'', r_password = Some ''Abc123'', r_name = Some ''Ann''\<rparr>"

definition bobInput :: register_input where
  "bobInput = \<lparr>r_email = Some ''b@x.com'', r_password = Some ''Abc123'', r_name = Some ''Bob''\<rparr>"

definition bob :: user where
  "bob = \<lparr>user_id = 2, name = ''Bob'', email = ''b@x.com'',
          lastLogin = ''2023-05-01T10:00:00.000Z'', role = USER, hash = ''h:Abc123''\<rparr>"

text \<open>Ann's address again, with a capital letter.\<close>

definition capitalInput :: register_input where
  "capitalInput = \<lparr>r_email = Some ''A@x.com'', r_password = Some ''Abc123'', r_name = Some ''Bob''\<rparr>"

definition getRequest :: request where
  "getRequest = \<lparr>req_method = ''GET'', x_zt1_auth = Some ''secret'', req_body = bobInput\<rparr>"

definition noKeyRequest :: request where
  "noKeyRequest = \<lparr>req_method = ''POST'', x_zt1_auth = None, req_body = bobInput\<rparr>"

definition wrongKeyRequest :: request where
  "wrongKeyRequest = \<lparr>req_method = ''POST'', x_zt1_auth = Some ''Secret'', req_body = bobInput\<rparr>"

definition secretRequest :: request where
  "secretRequest = \<lparr>req_method = ''POST'', x_zt1_auth = Some ''secret'', req_body = bobInput\<rparr>"

definition annSession :: session where
  "annSession = \<lparr>session_user_id = 1\<rparr>"

definition onlyNewPassword :: update_input where
  "onlyNewPassword = \<lparr>u_email = None, u_password = None, u_newPassword = Some ''Abc123'',
     u_repeatNewPassword = None, u_name = None\<rparr>"

definition renameAndRekey :: update_input where
  "renameAndRekey = \<lparr>u_email = None, u_password = Some ''Abc123'', u_newPassword = Some ''Xyz789'',
     u_repeatNewPassword = Some ''Xyz789'', u_name = Some ''Anna''\<rparr>"

definition annaWorld :: world where
  "annaWorld = annWorld\<lparr>users := [ann\<lparr>name := ''Anna'', hash := ''h:Xyz789''\<rparr>]\<rparr>"

text \<open>A token that decodes to claims without an id, and the token of Ann's reset link.\<close>

definition noIdInput :: change_input where
  "noIdInput = \<lparr>c_token = Some ''.x'', c_password = Some ''Abc123'', c_newPassword = Some ''Abc123''\<rparr>"

definition annTokenInput :: change_input where
  "annTokenInput = \<lparr>c_token = Some (validationToken toyEnv ann), c_password = Some ''New123'',
     c_newPassword = Some ''New123''\<rparr>"


text \<open>
  The same libraries at a later call, where \<open>bcryptjs\<close> draws another salt: the mark
  of a hash is \<open>g:\<close>, and a hash has eight characters, as the stored ones have.
\<close>

definition freshSaltEnv :: env where
  "freshSaltEnv =
     toyEnv\<lparr>bcrypt_hashSync := (\<lambda>p. ''g:'' @ take 6 (p @ ''000000'')),
            bcrypt_compareSync := (\<lambda>p h. drop 2 h = take 6 (p @ ''000000''))\<rparr>"

text \<open>Ann's world after her reset link was mailed.\<close>

definition mailedWorld :: world where
  "mailedWorld = snd (passwordResetLink toyEnv annWorld (Some ''a@x.com''))"

text \<open>
  That world after Ann changed her password through \<open>update\<close>, and after she redeemed
  the link, each at a call where the salt is another one.
\<close>

definition rekeyedWorld :: world where
  "rekeyedWorld = snd (update freshSaltEnv mailedWorld annSession renameAndRekey)"

definition redeemedWorld :: world where
  "redeemedWorld = snd (changePasswordFromJwt freshSaltEnv mailedWorld annTokenInput)"

section \<open>The password classifier\<close>

lemma lookahead_list_ex: "lookahead cls s \<Longrightarrow> list_ex cls s"
  by (induction s) (auto split: if_splits)

lemma lookahead_plain: "\<not> list_ex lineTerminator s \<Longrightarrow> lookahead cls s = list_ex cls s"
  by (induction s) auto

lemma mediumPassword_length: "mediumPassword s \<Longrightarrow> 6 \<le> length s"
  by (simp add: mediumPassword_def sixOrMore_def)

lemma mediumPassword_classes:
  "mediumPassword s \<Longrightarrow>
     (list_ex lowercase s \<and> list_ex uppercase s)
     \<or> (list_ex lowercase s \<and> list_ex digit s)
     \<or> (list_ex uppercase s \<and> list_ex digit s)"
  unfolding mediumPassword_def using lookahead_list_ex by blast

lemma accepted_iff: "accepted s \<longleftrightarrow> mediumPassword s \<and> length s \<le> 40"
  by (auto simp add: accepted_def passwordSchema_def Let_def dest: mediumPassword_length)

text \<open>
  Short candidates, candidates of at most one class and candidates of more than 40
  characters are rejected.
\<close>

lemma accepted_bounds: "accepted s \<Longrightarrow> 6 \<le> length s \<and> length s \<le> 40"
  by (simp add: accepted_iff mediumPassword_length)

lemma accepted_classes:
  "accepted s \<Longrightarrow>
     (list_ex lowercase s \<and> list_ex uppercase s)
     \<or> (list_ex lowercase s \<and> list_ex digit s)
     \<or> (list_ex uppercase s \<and> list_ex digit s)"
  by (simp add: accepted_iff mediumPassword_classes)

text \<open>On candidates without a line terminator the classifier is the documented rule.\<close>

lemma accepted_plain:
  assumes "\<not> list_ex lineTerminator s"
  shows "accepted s \<longleftrightarrow>
     6 \<le> length s \<and> length s \<le> 40 \<and>
     ((list_ex lowercase s \<and> list_ex uppercase s)
      \<or> (list_ex lowercase s \<and> list_ex digit s)
      \<or> (list_ex uppercase s \<and> list_ex digit s))"
proof -
  have "\<not> list_ex lineTerminator (take 6 s)"
    using assms by (auto simp add: list_ex_iff dest: in_set_takeD)
  then show ?thesis
    using assms by (auto simp add: accepted_iff mediumPassword_def sixOrMore_def lookahead_plain)
qed

text \<open>
  C4. The comment above the expression promises that a candidate of six characters or
  more with two of the three classes passes. The dot of the expression stops at a line
  terminator, so this candidate of seven characters with a lowercase letter, an
  uppercase letter and a digit is rejected: the expression does not match it, and the
  schema does not accept it.
\<close>

theorem lineBreakPassword_rejected:
  "length lineBreakPassword = 7
   \<and> list_ex lowercase lineBreakPassword
   \<and> list_ex uppercase lineBreakPassword
   \<and> list_ex digit lineBreakPassword
   \<and> mediumPassword lineBreakPassword = False
   \<and> accepted lineBreakPassword = False"
  by (simp add: lineBreakPassword_def accepted_iff mediumPassword_def sixOrMore_def
      lowercase_def uppercase_def digit_def lineTerminator_def codeUnit_def)

section \<open>me\<close>

text \<open>
  C10. For every session, \<open>me\<close> looks the session's user up and returns nothing: the
  caller receives \<open>undefined\<close>, never the row.
\<close>

theorem me_returns_nothing:
  "fst (me w sess) = findFirst (\<lambda>u. user_id u = session_user_id sess) (users w)
   \<and> snd (me w sess) = None"
  by (simp add: me_def)

section \<open>passwordResetLink\<close>

lemma passwordResetLink_unknown:
  assumes "requiredEmailSchema e raw = Parsed em" and "em \<noteq> []"
    and "findFirst (\<lambda>u. email u = toLowerCase em) (users w) = None"
  shows "passwordResetLink e w raw = (Inr (Some ''Mail sent if email exist!''), w)"
  using assms by (simp add: passwordResetLink_def)

lemma sendResetMail_no_message: "fst (sendResetMail e w em usr) \<noteq> Inr (Some m)"
  by (simp add: sendResetMail_def Let_def split: option.splits)

lemma passwordResetLink_known:
  assumes "requiredEmailSchema e raw = Parsed em" and "em \<noteq> []"
    and "findFirst (\<lambda>u. email u = toLowerCase em) (users w) = Some usr"
  shows "fst (passwordResetLink e w raw) \<noteq> Inr (Some ''Mail sent if email exist!'')"
  using assms by (simp add: passwordResetLink_def sendResetMail_no_message)

text \<open>
  C1. The response tells whether the account exists: for the email of a stored user
  the procedure sends the mail and returns nothing, for an unknown email it returns
  the message.
\<close>

theorem passwordResetLink_tells_accounts_apart:
  "fst (passwordResetLink toyEnv annWorld (Some ''a@x.com'')) = Inr None
   \<and> fst (passwordResetLink toyEnv annWorld (Some ''b@x.com''))
       = Inr (Some ''Mail sent if email exist!'')"
  by code_simp

section \<open>register\<close>

lemma notifyAdmins_users: "users (snd (notifyAdmins e g t nm em admins w)) = users w"
  by (induction admins arbitrary: w) (simp_all add: Let_def split: option.splits)

lemma notifyRegistration_users: "users (snd (notifyRegistration e g nm em w)) = users w"
  by (simp add: notifyRegistration_def notifyAdmins_users)

lemma createUser_created:
  assumes "createUser e w g em pw nm = (Inr (Created u), w')"
  shows "role u = (if length (users w) = 0 then ADMIN else USER) \<and> users w' = users w @ [u]"
  using assms
    notifyRegistration_users [of e g nm em
      "w\<lparr>users := users w @ [\<lparr>user_id = nextId (users w), name = nm, email = em,
           lastLogin = now e, role = (if length (users w) = 0 then ADMIN else USER),
           hash = bcrypt_hashSync e pw\<rparr>]\<rparr>"]
  by (auto simp add: createUser_def Let_def split: prod.splits option.splits)

text \<open>
  C5. A call of \<open>register\<close> that creates a user gives it the role \<open>ADMIN\<close> when the
  table holds no user at that time and the role \<open>USER\<close> otherwise, and adds it to the
  table; so the table is not empty afterwards, and every later registration yields
  \<open>USER\<close>.
\<close>

theorem register_role:
  assumes "register e w inp = (Inr (Created u), w')"
  shows "role u = (if length (users w) = 0 then ADMIN else USER) \<and> users w' = users w @ [u]"
proof -
  from assms obtain g em pw nm where "createUser e w g em pw nm = (Inr (Created u), w')"
    by (auto simp add: register_def split: sum.splits option.splits if_splits prod.splits)
  then show ?thesis by (rule createUser_created)
qed

theorem register_role_witness:
  "register toyEnv emptyWorld annInput = (Inr (Created ann), annWorld)
   \<and> role ann = ADMIN \<and> users annWorld = users emptyWorld @ [ann]
   \<and> register toyEnv annWorld bobInput = (Inr (Created bob), annWorld\<lparr>users := [ann, bob]\<rparr>)
   \<and> role bob = USER"
proof -
  have a: "register toyEnv emptyWorld annInput = (Inr (Created ann), annWorld)"
    by code_simp
  have b: "register toyEnv annWorld bobInput = (Inr (Created bob), annWorld\<lparr>users := [ann, bob]\<rparr>)"
    by code_simp
  from register_role [OF a] register_role [OF b] a b show ?thesis
    by (simp add: emptyWorld_def annWorld_def)
qed

text \<open>The email of a parsed input is the trimmed email of the raw one.\<close>

lemma parseRegister_email:
  assumes "parseRegister e inp = Inr (em, pw, nm)"
  shows "\<exists>raw. r_email inp = Some raw \<and> z_email e raw \<and> em = trim raw"
  using assms
  by (auto simp add: parseRegister_def Let_def emailSchema_def parsedValue_def
      split: option.splits parsed.splits if_splits)

text \<open>
  On an exact match the check works: while registration is enabled, a call whose input
  passes the schema and whose trimmed email is that of a stored user, character for
  character, fails with the \<open>NOT_FOUND\<close> error \<open>email "..." already taken\<close> and leaves the
  state as it was.
\<close>

lemma register_email_taken:
  assumes "parseRegister e inp = Inr (em, pw, nm)" and "em \<noteq> []"
    and "options w = Some g" and "enableRegistration g"
    and "u \<in> set (users w)" and "email u = em"
  shows "register e w inp =
    (Inl (TRPCError NOT_FOUND (''email '' @ [CHR 0x22] @ em @ [CHR 0x22] @ '' already taken'')), w)"
proof -
  from assms(5,6) have "findFirst (\<lambda>x. email x = em) (users w) \<noteq> None"
    by (auto simp add: findFirst_def find_None_iff)
  then obtain x where "findFirst (\<lambda>x. email x = em) (users w) = Some x" by auto
  with assms(1-4) show ?thesis by (simp add: register_def)
qed

text \<open>
  The account of a user registered under a capital letter cannot be found by a reset:
  \<open>passwordResetLink\<close> looks the lowercased email up, \<open>register\<close> stored it as typed.
\<close>

lemma capital_account_not_found:
  "fst (register toyEnv emptyWorld capitalInput)
     = Inr (Created \<lparr>user_id = 1, name = ''Bob'', email = ''A@x.com'',
                      lastLogin = ''2023-05-01T10:00:00.000Z'', role = ADMIN,
                      hash = ''h:Abc123''\<rparr>)
   \<and> passwordResetLink toyEnv (snd (register toyEnv emptyWorld capitalInput)) (Some ''A@x.com'')
     = (Inr (Some ''Mail sent if email exist!''), snd (register toyEnv emptyWorld capitalInput))"
  by code_simp

text \<open>
  C3. With registration enabled and Ann stored as \<open>a@x.com\<close>, a call with the email
  \<open>A@x.com\<close>, which is Ann's email up to letter case (and which trimming leaves as it
  is), does not fail: it creates a second user under that email, and the table holds
  two rows afterwards.
\<close>

theorem register_case_variant_accepted:
  "enableRegistration openOptions
   \<and> options annWorld = Some openOptions
   \<and> users annWorld = [ann]
   \<and> r_email capitalInput = Some ''A@x.com''
   \<and> trim ''A@x.com'' = ''A@x.com''
   \<and> toLowerCase ''A@x.com'' = toLowerCase (email ann)
   \<and> fst (register toyEnv annWorld capitalInput)
       = Inr (Created \<lparr>user_id = 2, name = ''Bob'', email = ''A@x.com'',
                        lastLogin = ''2023-05-01T10:00:00.000Z'', role = USER,
                        hash = ''h:Abc123''\<rparr>)
   \<and> length (users (snd (register toyEnv annWorld capitalInput))) = 2"
  by code_simp

section \<open>The HTTP handler\<close>

text \<open>
  C9. A request whose method is not \<open>POST\<close> is answered with 405; a \<open>POST\<close> whose
  \<open>x-zt1-auth\<close> header is missing or is not the string \<open>secret\<close> is answered with 401;
  neither calls \<open>register\<close> nor changes the state. \<open>register\<close> is called only for a
  \<open>POST\<close> whose header is \<open>secret\<close> (and then once, with the body of the request).
\<close>

theorem createUserHandler_gate:
  "(req_method req \<noteq> ''POST'' \<longrightarrow>
      createUserHandler e w req = (\<lparr>status = 405, payload = End\<rparr>, w, []))
   \<and> (req_method req = ''POST'' \<and> x_zt1_auth req \<noteq> Some ''secret'' \<longrightarrow>
        createUserHandler e w req = (\<lparr>status = 401, payload = Json_error ''Unauthorized''\<rparr>, w, []))
   \<and> (snd (snd (createUserHandler e w req)) \<noteq> [] \<longrightarrow>
        req_method req = ''POST'' \<and> x_zt1_auth req = Some ''secret'')
   \<and> (req_method req = ''POST'' \<and> x_zt1_auth req = Some ''secret'' \<longrightarrow>
        snd (snd (createUserHandler e w req)) = [req_body req]
        \<and> fst (snd (createUserHandler e w req)) = snd (register e w (req_body req)))"
  by (auto simp add: createUserHandler_def verifyApiKey_def split: option.splits sum.splits prod.splits)

theorem createUserHandler_gate_witness:
  "createUserHandler toyEnv annWorld getRequest = (\<lparr>status = 405, payload = End\<rparr>, annWorld, [])
   \<and> createUserHandler toyEnv annWorld noKeyRequest
       = (\<lparr>status = 401, payload = Json_error ''Unauthorized''\<rparr>, annWorld, [])
   \<and> createUserHandler toyEnv annWorld wrongKeyRequest
       = (\<lparr>status = 401, payload = Json_error ''Unauthorized''\<rparr>, annWorld, [])
   \<and> snd (snd (createUserHandler toyEnv annWorld secretRequest)) = [bobInput]"
  using createUserHandler_gate [of getRequest toyEnv annWorld]
    createUserHandler_gate [of noKeyRequest toyEnv annWorld]
    createUserHandler_gate [of wrongKeyRequest toyEnv annWorld]
    createUserHandler_gate [of secretRequest toyEnv annWorld]
  by (simp add: getRequest_def noKeyRequest_def wrongKeyRequest_def secretRequest_def)

section \<open>update\<close>

lemma in_set_dropWhile: "x \<in> set s \<Longrightarrow> \<not> P x \<Longrightarrow> x \<in> set (dropWhile P s)"
  by (induction s) auto

lemma trim_nonempty:
  assumes "x \<in> set s" and "\<not> whiteSpace x"
  shows "trim s \<noteq> []"
proof -
  from assms have "x \<in> set (rev (dropWhile whiteSpace s))"
    by (simp add: in_set_dropWhile)
  with assms(2) have "x \<in> set (dropWhile whiteSpace (rev (dropWhile whiteSpace s)))"
    by (simp add: in_set_dropWhile)
  then have "dropWhile whiteSpace (rev (dropWhile whiteSpace s)) \<noteq> []"
    by (cases "dropWhile whiteSpace (rev (dropWhile whiteSpace s))") simp_all
  then show ?thesis by (simp only: trim_def rev_is_Nil_conv) simp
qed

lemma class_not_whiteSpace:
  "lowercase c \<or> uppercase c \<or> digit c \<Longrightarrow> \<not> whiteSpace c"
  by (auto simp add: lowercase_def uppercase_def digit_def whiteSpace_def)

lemma mediumPassword_trim: "mediumPassword s \<Longrightarrow> trim s \<noteq> []"
proof -
  assume "mediumPassword s"
  then obtain c where "c \<in> set s" and "lowercase c \<or> uppercase c \<or> digit c"
    using mediumPassword_classes [of s] by (auto simp add: list_ex_iff)
  then show ?thesis using trim_nonempty class_not_whiteSpace by blast
qed

lemma optional_password:
  assumes "parsedValue (optional (trimmed (passwordSchema m)) raw) = Some v"
  shows "v = map_option trim raw \<and> truthy v = (raw \<noteq> None)"
  using assms
  by (auto simp add: optional_def trimmed_def passwordSchema_def parsedValue_def Let_def
      mediumPassword_trim split: option.splits parsed.splits if_splits)

lemma optional_email:
  assumes "parsedValue (optional (emailSchema e) raw) = Some v"
  shows "v = map_option trim raw"
  using assms
  by (auto simp add: optional_def emailSchema_def parsedValue_def
      split: option.splits parsed.splits if_splits)

lemma optional_name:
  assumes "parsedValue (optional shortNameSchema raw) = Some v"
  shows "v = raw"
  using assms
  by (auto simp add: optional_def shortNameSchema_def parsedValue_def Let_def
      split: option.splits parsed.splits if_splits)

lemma parseUpdate_fields:
  assumes "parseUpdate e inp = Inr input"
  shows "u_email input = map_option trim (u_email inp)
    \<and> u_name input = u_name inp
    \<and> u_password input = map_option trim (u_password inp)
    \<and> u_newPassword input = map_option trim (u_newPassword inp)
    \<and> u_repeatNewPassword input = map_option trim (u_repeatNewPassword inp)
    \<and> truthy (u_password input) = (u_password inp \<noteq> None)
    \<and> truthy (u_newPassword input) = (u_newPassword inp \<noteq> None)
    \<and> truthy (u_repeatNewPassword input) = (u_repeatNewPassword inp \<noteq> None)"
proof -
  from assms obtain em pw np rp nm where
    h1: "parsedValue (optional (emailSchema e) (u_email inp)) = Some em" and
    h2: "parsedValue (optional (trimmed (passwordSchema
        ''Current password does not meet the requirements!'')) (u_password inp)) = Some pw" and
    h3: "parsedValue (optional (trimmed (passwordSchema
        ''New Password does not meet the requirements!'')) (u_newPassword inp)) = Some np" and
    h4: "parsedValue (optional (trimmed (passwordSchema
        ''Repeat NewPassword does not meet the requirements!'')) (u_repeatNewPassword inp)) = Some rp" and
    h5: "parsedValue (optional shortNameSchema (u_name inp)) = Some nm" and
    h6: "input = \<lparr>u_email = em, u_password = pw, u_newPassword = np,
              u_repeatNewPassword = rp, u_name = nm\<rparr>"
    by (auto simp add: parseUpdate_def Let_def split: option.splits)
  show ?thesis
    using optional_email [OF h1] optional_password [OF h2] optional_password [OF h3]
      optional_password [OF h4] optional_name [OF h5]
    unfolding h6 by auto
qed

text \<open>
  C7, as the code has it. When the user of the session is in the table and the input
  passes the schema, a call that supplies at least one but not all of \<open>password\<close>,
  \<open>newPassword\<close> and \<open>repeatNewPassword\<close> fails with the \<open>BAD_REQUEST\<close> error
  \<open>Please fill all fields!\<close> and leaves the state as it was.
\<close>

theorem update_partial_fields:
  assumes "parseUpdate e inp = Inr input"
    and "findFirst (\<lambda>u. user_id u = session_user_id sess) (users w) = Some usr"
    and "u_password inp \<noteq> None \<or> u_newPassword inp \<noteq> None \<or> u_repeatNewPassword inp \<noteq> None"
    and "u_password inp = None \<or> u_newPassword inp = None \<or> u_repeatNewPassword inp = None"
  shows "update e w sess inp = (Inl (TRPCError BAD_REQUEST ''Please fill all fields!''), w)"
proof -
  have t: "truthy (u_password input) = (u_password inp \<noteq> None)"
    "truthy (u_newPassword input) = (u_newPassword inp \<noteq> None)"
    "truthy (u_repeatNewPassword input) = (u_repeatNewPassword inp \<noteq> None)"
    using parseUpdate_fields [OF assms(1)] by blast+
  show ?thesis
    using assms(3,4) by (auto simp add: update_def assms(1,2) t)
qed

theorem update_partial_fields_witness:
  "update toyEnv annWorld annSession onlyNewPassword
     = (Inl (TRPCError BAD_REQUEST ''Please fill all fields!''), annWorld)"
proof -
  have p: "parseUpdate toyEnv onlyNewPassword = Inr onlyNewPassword" by code_simp
  have f: "findFirst (\<lambda>u. user_id u = session_user_id annSession) (users annWorld) = Some ann"
    by code_simp
  show ?thesis
    using update_partial_fields [OF p f] by (simp add: onlyNewPassword_def)
qed

text \<open>
  C7, as the claim has it, fails where the user of the session is no longer in the
  table: the input passes the schema and supplies \<open>newPassword\<close> alone, and the call
  fails with \<open>NOT_FOUND\<close>.
\<close>

theorem update_partial_fields_counterexample:
  "parseUpdate toyEnv onlyNewPassword = Inr onlyNewPassword
   \<and> u_newPassword onlyNewPassword = Some ''Abc123''
   \<and> u_password onlyNewPassword = None
   \<and> u_repeatNewPassword onlyNewPassword = None
   \<and> update toyEnv emptyWorld annSession onlyNewPassword
       = (Inl (TRPCError NOT_FOUND ''User not found!''), emptyWorld)"
  by code_simp

lemma updateWhereId_found:
  assumes "findFirst (\<lambda>u. user_id u = i) rows = Some usr"
  shows "\<exists>pre post. rows = pre @ usr # post
           \<and> \<not> list_ex (\<lambda>x. user_id x = i) pre
           \<and> (\<forall>f. updateWhereId i f rows = pre @ f usr # post)"
  using assms
proof (induction rows)
  case Nil
  then show ?case by (simp add: findFirst_def)
next
  case (Cons u us)
  show ?case
  proof (cases "user_id u = i")
    case True
    with Cons.prems have "u = usr" by (simp add: findFirst_def)
    with True have "u # us = [] @ usr # us
        \<and> \<not> list_ex (\<lambda>x. user_id x = i) []
        \<and> (\<forall>f. updateWhereId i f (u # us) = [] @ f usr # us)"
      by simp
    then show ?thesis by blast
  next
    case False
    with Cons.prems have "findFirst (\<lambda>u. user_id u = i) us = Some usr"
      by (simp add: findFirst_def)
    with Cons.IH obtain pre post where
      "us = pre @ usr # post" and "\<not> list_ex (\<lambda>x. user_id x = i) pre"
      and "\<forall>f. updateWhereId i f us = pre @ f usr # post" by blast
    with False have "u # us = (u # pre) @ usr # post
        \<and> \<not> list_ex (\<lambda>x. user_id x = i) (u # pre)
        \<and> (\<forall>f. updateWhereId i f (u # us) = (u # pre) @ f usr # post)" by simp
    then show ?thesis by blast
  qed
qed

lemma findFirst_id: "findFirst (\<lambda>u. user_id u = i) rows = Some usr \<Longrightarrow> user_id usr = i"
  by (auto simp add: findFirst_def find_Some_iff)

text \<open>
  C8. A call of \<open>update\<close> that succeeds rewrites one row, the first one with the id of
  the session, and nothing else of the state. In that row the email becomes the
  trimmed email of the input when that is a string that is not empty, the name becomes
  the name of the input when that is a string that is not empty, and both stay as they
  were otherwise; the hash stays as it was when no \<open>newPassword\<close> is supplied, and is the
  hash of the trimmed \<open>newPassword\<close> when one is, in which case all three fields were
  supplied, the new password passed the policy, the old password matched the stored
  hash and the two new passwords were equal. The id, the role and the last login of
  the row are as before.
\<close>

theorem update_frame:
  assumes "update e w sess inp = (Inr r, w')"
  shows "\<exists>usr pre post.
      findFirst (\<lambda>u. user_id u = session_user_id sess) (users w) = Some usr
    \<and> users w = pre @ usr # post
    \<and> \<not> list_ex (\<lambda>x. user_id x = session_user_id sess) pre
    \<and> w' = w\<lparr>users := pre
           @ usr\<lparr>email := orElse (map_option trim (u_email inp)) (email usr),
                  name := orElse (u_name inp) (name usr),
                  hash := (case u_newPassword inp of
                             None \<Rightarrow> hash usr
                           | Some np \<Rightarrow> bcrypt_hashSync e (trim np))\<rparr>
           # post\<rparr>
    \<and> (u_newPassword inp \<noteq> None \<longrightarrow>
         (\<exists>pw np rp. u_password inp = Some pw \<and> u_newPassword inp = Some np
            \<and> u_repeatNewPassword inp = Some rp \<and> mediumPassword (trim np)
            \<and> bcrypt_compareSync e (trim pw) (hash usr) \<and> trim np = trim rp))"
proof -
  from assms obtain input usr where
    p: "parseUpdate e inp = Inr input" and
    f: "findFirst (\<lambda>u. user_id u = session_user_id sess) (users w) = Some usr" and
    w': "w' = writeUser e w usr input" and
    chk: "truthy (u_newPassword input) \<longrightarrow>
            truthy (u_password input) \<and> truthy (u_repeatNewPassword input)
            \<and> mediumPassword (the (u_newPassword input))
            \<and> bcrypt_compareSync e (the (u_password input)) (hash usr)
            \<and> the (u_newPassword input) = the (u_repeatNewPassword input)"
    by (auto simp add: update_def split: sum.splits option.splits if_splits)
  note flds = parseUpdate_fields [OF p]
  have h: "(case u_newPassword input of
              None \<Rightarrow> hash usr
            | Some np \<Rightarrow> if np \<noteq> [] then bcrypt_hashSync e np else hash usr)
         = (case u_newPassword inp of
              None \<Rightarrow> hash usr
            | Some np \<Rightarrow> bcrypt_hashSync e (trim np))"
    using flds by (cases "u_newPassword inp") auto
  from updateWhereId_found [OF f] obtain pre post where
    s: "users w = pre @ usr # post" and
    n: "\<not> list_ex (\<lambda>x. user_id x = session_user_id sess) pre" and
    u: "\<forall>g. updateWhereId (session_user_id sess) g (users w) = pre @ g usr # post"
    by blast
  have "w' = w\<lparr>users := pre
           @ usr\<lparr>email := orElse (map_option trim (u_email inp)) (email usr),
                  name := orElse (u_name inp) (name usr),
                  hash := (case u_newPassword inp of
                             None \<Rightarrow> hash usr
                           | Some np \<Rightarrow> bcrypt_hashSync e (trim np))\<rparr>
           # post\<rparr>"
    using flds h u findFirst_id [OF f] by (simp add: w' writeUser_def)
  moreover have "u_newPassword inp \<noteq> None \<longrightarrow>
         (\<exists>pw np rp. u_password inp = Some pw \<and> u_newPassword inp = Some np
            \<and> u_repeatNewPassword inp = Some rp \<and> mediumPassword (trim np)
            \<and> bcrypt_compareSync e (trim pw) (hash usr) \<and> trim np = trim rp)"
    using flds chk by auto
  ultimately show ?thesis using f s n by blast
qed


theorem update_frame_witness:
  "update toyEnv annWorld annSession renameAndRekey = (Inr (), annaWorld)
   \<and> (\<exists>usr pre post.
         findFirst (\<lambda>u. user_id u = session_user_id annSession) (users annWorld) = Some usr
       \<and> users annWorld = pre @ usr # post
       \<and> annaWorld = annWorld\<lparr>users := pre
            @ usr\<lparr>email := email usr, name := ''Anna'', hash := ''h:Xyz789''\<rparr> # post\<rparr>
       \<and> bcrypt_compareSync toyEnv ''Abc123'' (hash usr))"
proof -
  have a: "update toyEnv annWorld annSession renameAndRekey = (Inr (), annaWorld)"
    by code_simp
  have t: "trim ''Xyz789'' = ''Xyz789''" "trim ''Abc123'' = ''Abc123''"
    by code_simp+
  from update_frame [OF a] obtain usr pre post where
    "findFirst (\<lambda>u. user_id u = session_user_id annSession) (users annWorld) = Some usr"
    "users annWorld = pre @ usr # post"
    "annaWorld = annWorld\<lparr>users := pre
       @ usr\<lparr>email := email usr, name := ''Anna'', hash := ''h:Xyz789''\<rparr> # post\<rparr>"
    "bcrypt_compareSync toyEnv ''Abc123'' (hash usr)"
    by (auto simp add: renameAndRekey_def orElse_def t toyEnv_def)
  with a show ?thesis by blast
qed

section \<open>changePasswordFromJwt\<close>

lemma parseChange_failure:
  "parseChange inp = Inl f \<Longrightarrow> f \<noteq> throwError ''This link is not valid!''"
  by (auto simp add: parseChange_def Let_def parseFailure_def thrown_def issues_def
      parsedValue_def passwordSchema_def throwError_def
      split: option.splits parsed.splits if_splits list.splits)

text \<open>
  C2, as the code has it. A call whose token decodes to claims without a user id fails,
  never with the error \<open>This link is not valid!\<close>, and leaves the user table as it was.
  When the input passes the schema, the token is not empty and the two passwords are
  equal, the error \<open>This link is not valid!\<close> is thrown inside the \<open>try\<close> block, caught
  and printed, and the caller receives \<open>token is not valid, please try again!\<close>.
\<close>

theorem changePassword_without_id:
  assumes "c_token inp = Some token" and "jwt_decode e token = Some claims"
    and "pl_id claims = None"
  shows "(\<exists>f. fst (changePasswordFromJwt e w inp) = Inl f
            \<and> f \<noteq> throwError ''This link is not valid!'')
    \<and> users (snd (changePasswordFromJwt e w inp)) = users w
    \<and> (parseChange inp = Inr (token, pw, pw) \<and> token \<noteq> [] \<longrightarrow>
         changePasswordFromJwt e w inp =
           (Inl (throwError ''token is not valid, please try again!''),
            w\<lparr>console := console w @ [throwError ''This link is not valid!'']\<rparr>))"
proof (cases "parseChange inp")
  case (Inl f)
  then show ?thesis
    using parseChange_failure [OF Inl] by (simp add: changePasswordFromJwt_def)
next
  case (Inr r)
  then obtain p n where r: "parseChange inp = Inr (token, p, n)"
    using assms(1)
    by (auto simp add: parseChange_def Let_def parsedValue_def split: option.splits parsed.splits)
  have t: "tryChange e w token p = Inl (throwError ''This link is not valid!'')"
    using assms(2,3) by (simp add: tryChange_def)
  show ?thesis
    using r t by (auto simp add: changePasswordFromJwt_def throwError_def)
qed

theorem changePassword_without_id_witness:
  "changePasswordFromJwt toyEnv annWorld noIdInput =
     (Inl (throwError ''token is not valid, please try again!''),
      annWorld\<lparr>console := console annWorld @ [throwError ''This link is not valid!'']\<rparr>)"
proof -
  have a: "c_token noIdInput = Some ''.x''" by (simp add: noIdInput_def)
  have b: "jwt_decode toyEnv ''.x'' = Some \<lparr>pl_id = None, pl_email = None\<rparr>" by code_simp
  have c: "parseChange noIdInput = Inr (''.x'', ''Abc123'', ''Abc123'')" by code_simp
  show ?thesis
    using changePassword_without_id [OF a b, of annWorld "''Abc123''"] c by simp
qed

text \<open>
  C2, as the claim has it, fails: the token \<open>.x\<close> decodes to claims without an id, and
  the error that reaches the caller is the generic one.
\<close>

theorem changePassword_without_id_counterexample:
  "c_token noIdInput = Some ''.x''
   \<and> jwt_decode toyEnv ''.x'' = Some \<lparr>pl_id = None, pl_email = None\<rparr>
   \<and> fst (changePasswordFromJwt toyEnv annWorld noIdInput)
       = Inl (TRPCError BAD_REQUEST ''token is not valid, please try again!'')
   \<and> fst (changePasswordFromJwt toyEnv annWorld noIdInput)
       \<noteq> Inl (TRPCError BAD_REQUEST ''This link is not valid!'')"
  by code_simp

section \<open>Reset tokens and the stored hash\<close>

text \<open>The row that an update by id has rewritten is the row a lookup by id finds.\<close>

lemma findFirst_updateWhereId:
  assumes "findFirst (\<lambda>u. user_id u = i) rows = Some usr" and "user_id (f usr) = i"
  shows "findFirst (\<lambda>u. user_id u = i) (updateWhereId i f rows) = Some (f usr)"
  using assms by (induction rows) (auto simp add: findFirst_def split: if_splits)

text \<open>
  After a successful \<open>update\<close> with a \<open>newPassword\<close>, and after a successful
  \<open>changePasswordFromJwt\<close>, the row holds a hash that \<open>hashSync\<close> made at that call.
\<close>

lemma update_new_hash:
  assumes "update e w sess inp = (Inr r, w')" and "u_newPassword inp = Some np"
  shows "\<exists>row x. findFirst (\<lambda>u. user_id u = session_user_id sess) (users w') = Some row
           \<and> hash row = bcrypt_hashSync e x"
proof -
  from assms(1) obtain input usr where
    p: "parseUpdate e inp = Inr input" and
    f: "findFirst (\<lambda>u. user_id u = session_user_id sess) (users w) = Some usr" and
    w': "w' = writeUser e w usr input"
    by (auto simp add: update_def split: sum.splits option.splits if_splits)
  from parseUpdate_fields [OF p] assms(2)
  have n: "u_newPassword input = Some (trim np)" and t: "truthy (u_newPassword input)"
    by auto
  let ?f = "\<lambda>row. row\<lparr>email := orElse (u_email input) (email usr),
                      name := orElse (u_name input) (name usr),
                      hash := (case u_newPassword input of
                                 None \<Rightarrow> hash usr
                               | Some np \<Rightarrow>
                                   if np \<noteq> [] then bcrypt_hashSync e np else hash usr)\<rparr>"
  have i: "user_id usr = session_user_id sess" using f by (rule findFirst_id)
  have "findFirst (\<lambda>u. user_id u = session_user_id sess)
          (updateWhereId (session_user_id sess) ?f (users w)) = Some (?f usr)"
    using f by (rule findFirst_updateWhereId) (simp add: i)
  then have "findFirst (\<lambda>u. user_id u = session_user_id sess) (users w') = Some (?f usr)"
    by (simp add: w' writeUser_def i)
  moreover have "hash (?f usr) = bcrypt_hashSync e (trim np)"
    using n t by simp
  ultimately show ?thesis by blast
qed

lemma change_new_hash:
  assumes "changePasswordFromJwt e w inp = (Inr u2, w')"
  shows "\<exists>x. findFirst (\<lambda>u. user_id u = user_id u2) (users w') = Some u2
           \<and> hash u2 = bcrypt_hashSync e x"
proof -
  from assms obtain token password where
    t: "tryChange e w token password = Inr (u2, w')"
    by (auto simp add: changePasswordFromJwt_def split: sum.splits prod.splits if_splits)
  then obtain q i usr where
    "jwt_decode e token = Some q" "pl_id q = Some i"
    and f: "findFirst (\<lambda>u. user_id u = i) (users w) = Some usr"
    and u2: "u2 = usr\<lparr>hash := bcrypt_hashSync e password\<rparr>"
    and w': "w' = w\<lparr>users := updateWhereId i
                        (\<lambda>row. row\<lparr>hash := bcrypt_hashSync e password\<rparr>) (users w)\<rparr>"
    by (auto simp add: tryChange_def split: option.splits if_splits)
  have i: "user_id usr = i" using f by (rule findFirst_id)
  have "findFirst (\<lambda>u. user_id u = i)
          (updateWhereId i (\<lambda>row. row\<lparr>hash := bcrypt_hashSync e password\<rparr>) (users w))
        = Some (usr\<lparr>hash := bcrypt_hashSync e password\<rparr>)"
    using f by (rule findFirst_updateWhereId) (simp add: i)
  then show ?thesis by (auto simp add: u2 w' i)
qed

text \<open>A token that does not verify against the stored hash of its user is refused.\<close>

lemma redeem_refused:
  assumes "jwt_decode e tok = Some q" and "pl_id q = Some i"
    and "findFirst (\<lambda>x. user_id x = i) (users w) = Some row"
    and "\<not> jwt_verify e tok (hash row)"
    and "c_token inp = Some tok"
  shows "(\<exists>f. fst (changePasswordFromJwt e w inp) = Inl f)
    \<and> users (snd (changePasswordFromJwt e w inp)) = users w
    \<and> (parseChange inp = Inr (tok, pw, pw) \<and> tok \<noteq> [] \<and> i \<noteq> 0 \<and> hash row \<noteq> [] \<longrightarrow>
         changePasswordFromJwt e w inp =
           (Inl (throwError ''token is not valid, please try again!''),
            w\<lparr>console := console w @ [JsError ''JsonWebTokenError'']\<rparr>))"
proof -
  have t: "\<exists>f. tryChange e w tok p = Inl f" for p
    using assms(1-4) by (simp add: tryChange_def)
  have t': "i \<noteq> 0 \<and> hash row \<noteq> [] \<longrightarrow>
      tryChange e w tok p = Inl (JsError ''JsonWebTokenError'')" for p
    using assms(1-4) by (simp add: tryChange_def)
  show ?thesis
  proof (cases "parseChange inp")
    case (Inl f)
    then show ?thesis by (simp add: changePasswordFromJwt_def)
  next
    case (Inr r)
    then obtain p n where r: "parseChange inp = Inr (tok, p, n)"
      using assms(5)
      by (auto simp add: parseChange_def Let_def parsedValue_def split: option.splits parsed.splits)
    from t [of p] obtain f where f: "tryChange e w tok p = Inl f" by blast
    show ?thesis
      using r f t' [of p] by (auto simp add: changePasswordFromJwt_def)
  qed
qed

text \<open>
  What \<open>passwordResetLink\<close> does when it returns nothing: the hash of the user it found
  is not empty, and the mail it hands to the transport is rendered from the link that
  carries the token signed over the user's id and email with the user's hash.
\<close>

lemma resetLink_mailed:
  assumes "requiredEmailSchema e raw = Parsed em"
    and "findFirst (\<lambda>x. email x = toLowerCase em) (users w) = Some u"
    and "passwordResetLink e w raw = (Inr None, w1)"
  shows "hash u \<noteq> []
    \<and> users w1 = users w
    \<and> (\<exists>t r m. ejs_render e t
                  [(''toEmail'', em),
                   (''forgotLink'', NEXTAUTH_URL e @ ''/login/forgotpassword?token=''
                      @ jwt_sign e \<lparr>pl_id = Some (user_id u), pl_email = Some (email u)\<rparr>
                          (hash u) ''15m'')] = Some r
          \<and> w1 = w\<lparr>outbox := outbox w @ [m]\<rparr> \<and> mail_to m = em \<and> mail_html m = body r)"
proof -
  let ?vars = "[(''toEmail'', em),
     (''forgotLink'', NEXTAUTH_URL e @ ''/login/forgotpassword?token=''
        @ jwt_sign e \<lparr>pl_id = Some (user_id u), pl_email = Some (email u)\<rparr> (hash u) ''15m'')]"
  from assms have s: "sendResetMail e w em u = (Inr None, w1)"
    by (simp add: passwordResetLink_def split: if_splits)
  note F = s [unfolded sendResetMail_def Let_def validationToken_def]
  let ?t = "case options w of
              None \<Rightarrow> forgotPasswordTemplate_default e
            | Some g \<Rightarrow>
                (case forgotPasswordTemplate g of
                   None \<Rightarrow> forgotPasswordTemplate_default e
                 | Some t \<Rightarrow> t)"
  from F have h: "hash u \<noteq> []"
    by (auto split: if_splits)
  from F h obtain r where r: "ejs_render e ?t ?vars = Some r"
    by (cases "ejs_render e ?t ?vars") simp_all
  from F h r obtain g where g: "options w = Some g"
    by (cases "options w") simp_all
  from F h r g have w1: "w1 = w\<lparr>outbox := outbox w @ [\<lparr>mail_from = smtpEmail g, mail_to = em,
            mail_subject = subject r, mail_html = body r\<rparr>]\<rparr>"
    by (simp split: if_splits)
  let ?t = "case forgotPasswordTemplate g of
                   None \<Rightarrow> forgotPasswordTemplate_default e
                 | Some t \<Rightarrow> t"
  have r: "ejs_render e ?t ?vars = Some r" using r g by simp
  let ?m = "\<lparr>mail_from = smtpEmail g, mail_to = em, mail_subject = subject r,
             mail_html = body r\<rparr>"
  have "ejs_render e ?t ?vars = Some r \<and> w1 = w\<lparr>outbox := outbox w @ [?m]\<rparr>
      \<and> mail_to ?m = em \<and> mail_html ?m = body r"
    using r w1 by simp
  then have "\<exists>t r m. ejs_render e t ?vars = Some r \<and> w1 = w\<lparr>outbox := outbox w @ [m]\<rparr>
      \<and> mail_to m = em \<and> mail_html m = body r"
    by blast
  with h w1 show ?thesis by simp
qed

text \<open>
  C6. Let \<open>passwordResetLink\<close> mail a link to the user \<open>u\<close>; its token \<open>tok\<close> is signed
  with the hash that \<open>u\<close> has at that time. Let then the password of that user change,
  through a successful \<open>update\<close> of the user's session with a \<open>newPassword\<close> or through
  a successful \<open>changePasswordFromJwt\<close> for that user. Then the row of the user holds a
  new hash, the old token does not verify against it, and redeeming the old token
  fails and leaves the user table as it was; when the call reaches the verification,
  it is the verification that throws.

  The libraries are taken as follows. \<open>jsonwebtoken\<close>: a token signed with one secret
  does not verify under another secret of the same length, and \<open>decode\<close> reads the id
  of a signed token back. \<open>bcryptjs\<close>: the hashes of the call that changes the password
  have the length of the stored hash (all hashes of bcrypt have 60 characters) and
  differ from it (the salt is drawn anew, and it is part of the hash).
\<close>

theorem stale_token_rejected:
  assumes "\<forall>p k k'. length k' = length k \<longrightarrow>
             jwt_verify e3 (jwt_sign e1 p k ''15m'') k' \<longrightarrow> k' = k"
    and "\<forall>p k. \<exists>q. jwt_decode e3 (jwt_sign e1 p k ''15m'') = Some q \<and> pl_id q = pl_id p"
    and "\<forall>x. bcrypt_hashSync e2 x \<noteq> hash u"
    and "\<forall>x. length (bcrypt_hashSync e2 x) = length (hash u)"
    and "requiredEmailSchema e1 raw = Parsed em"
    and "findFirst (\<lambda>x. email x = toLowerCase em) (users w) = Some u"
    and "passwordResetLink e1 w raw = (Inr None, w1)"
    and "tok = jwt_sign e1 \<lparr>pl_id = Some (user_id u), pl_email = Some (email u)\<rparr>
                 (hash u) ''15m''"
    and "(session_user_id sess = user_id u \<and> u_newPassword uinp \<noteq> None
            \<and> update e2 w1 sess uinp = (Inr (), w2))
         \<or> (\<exists>u2. user_id u2 = user_id u
               \<and> changePasswordFromJwt e2 w1 cinp = (Inr u2, w2))"
    and "c_token inp = Some tok"
  shows "(\<exists>t r m. ejs_render e1 t
             [(''toEmail'', em),
              (''forgotLink'', NEXTAUTH_URL e1 @ ''/login/forgotpassword?token='' @ tok)]
             = Some r
           \<and> w1 = w\<lparr>outbox := outbox w @ [m]\<rparr> \<and> mail_to m = em \<and> mail_html m = body r)
    \<and> (\<exists>row x. findFirst (\<lambda>y. user_id y = user_id u) (users w2) = Some row
           \<and> hash row = bcrypt_hashSync e2 x \<and> \<not> jwt_verify e3 tok (hash row))
    \<and> (\<exists>f. fst (changePasswordFromJwt e3 w2 inp) = Inl f)
    \<and> users (snd (changePasswordFromJwt e3 w2 inp)) = users w2
    \<and> (parseChange inp = Inr (tok, pw, pw) \<and> tok \<noteq> [] \<and> user_id u \<noteq> 0 \<longrightarrow>
         changePasswordFromJwt e3 w2 inp =
           (Inl (throwError ''token is not valid, please try again!''),
            w2\<lparr>console := console w2 @ [JsError ''JsonWebTokenError'']\<rparr>))"
proof -
  note mailed = resetLink_mailed [OF assms(5,6,7)]
  from mailed have h: "hash u \<noteq> []" by blast
  from assms(9) obtain row x where
    row: "findFirst (\<lambda>y. user_id y = user_id u) (users w2) = Some row" and
    hr: "hash row = bcrypt_hashSync e2 x"
  proof
    assume "session_user_id sess = user_id u \<and> u_newPassword uinp \<noteq> None
        \<and> update e2 w1 sess uinp = (Inr (), w2)"
    then obtain np where "session_user_id sess = user_id u" "u_newPassword uinp = Some np"
      "update e2 w1 sess uinp = (Inr (), w2)" by auto
    with update_new_hash [of e2 w1 sess uinp "()" w2 np] that show thesis by auto
  next
    assume "\<exists>u2. user_id u2 = user_id u \<and> changePasswordFromJwt e2 w1 cinp = (Inr u2, w2)"
    then obtain u2 where "user_id u2 = user_id u"
      "changePasswordFromJwt e2 w1 cinp = (Inr u2, w2)" by auto
    with change_new_hash [of e2 w1 cinp u2 w2] that show thesis by auto
  qed
  from hr assms(3,4) have d: "hash row \<noteq> hash u" and l: "length (hash row) = length (hash u)"
    by auto
  from assms(1) l have "jwt_verify e3 tok (hash row) \<longrightarrow> hash row = hash u"
    unfolding assms(8) by blast
  with d have v: "\<not> jwt_verify e3 tok (hash row)" by blast
  from assms(2) obtain q where q: "jwt_decode e3 tok = Some q" "pl_id q = Some (user_id u)"
    unfolding assms(8) by fastforce
  from l h have hn: "hash row \<noteq> []" by auto
  note refused = redeem_refused [OF q row v assms(10), of pw]
  have "\<exists>t r m. ejs_render e1 t
             [(''toEmail'', em),
              (''forgotLink'', NEXTAUTH_URL e1 @ ''/login/forgotpassword?token='' @ tok)]
             = Some r
           \<and> w1 = w\<lparr>outbox := outbox w @ [m]\<rparr> \<and> mail_to m = em \<and> mail_html m = body r"
    using mailed unfolding assms(8) by blast
  moreover have "\<exists>row x. findFirst (\<lambda>y. user_id y = user_id u) (users w2) = Some row
           \<and> hash row = bcrypt_hashSync e2 x \<and> \<not> jwt_verify e3 tok (hash row)"
    using row hr v by blast
  ultimately show ?thesis using refused hn by blast
qed

text \<open>The stand-in for \<open>jsonwebtoken\<close> is a library of that kind.\<close>

lemma toy_token_secret:
  "dropWhile (\<lambda>c. c \<noteq> CHR ''.'') (replicate n CHR ''i'' @ CHR ''.'' # k) = CHR ''.'' # k"
  by (induction n) simp_all

lemma toy_token_id:
  "takeWhile (\<lambda>c. c \<noteq> CHR ''.'') (replicate n CHR ''i'' @ CHR ''.'' # k) = replicate n CHR ''i''"
  by (induction n) simp_all

lemma toy_verify:
  "jwt_verify toyEnv (jwt_sign toyEnv p k x) k' \<longrightarrow> k' = k"
  by (simp add: toyEnv_def toy_token_secret)

lemma toy_decode:
  "\<exists>q. jwt_decode toyEnv (jwt_sign toyEnv p k x) = Some q \<and> pl_id q = pl_id p"
  by (cases "pl_id p") (simp_all add: toyEnv_def toy_token_id)

theorem stale_token_rejected_witness:
  "passwordResetLink toyEnv annWorld (Some ''a@x.com'') = (Inr None, mailedWorld)
   \<and> fst (changePasswordFromJwt toyEnv mailedWorld annTokenInput)
       = Inr (ann\<lparr>hash := ''h:New123''\<rparr>)
   \<and> update freshSaltEnv mailedWorld annSession renameAndRekey = (Inr (), rekeyedWorld)
   \<and> changePasswordFromJwt toyEnv rekeyedWorld annTokenInput =
       (Inl (throwError ''token is not valid, please try again!''),
        rekeyedWorld\<lparr>console := console rekeyedWorld @ [JsError ''JsonWebTokenError'']\<rparr>)
   \<and> changePasswordFromJwt freshSaltEnv mailedWorld annTokenInput
       = (Inr (ann\<lparr>hash := ''g:New123''\<rparr>), redeemedWorld)
   \<and> changePasswordFromJwt toyEnv redeemedWorld annTokenInput =
       (Inl (throwError ''token is not valid, please try again!''),
        redeemedWorld\<lparr>console := console redeemedWorld @ [JsError ''JsonWebTokenError'']\<rparr>)"
proof -
  have v: "\<forall>p k k'. length k' = length k \<longrightarrow>
      jwt_verify toyEnv (jwt_sign toyEnv p k ''15m'') k' \<longrightarrow> k' = k"
    using toy_verify by blast
  have d: "\<forall>p k. \<exists>q. jwt_decode toyEnv (jwt_sign toyEnv p k ''15m'') = Some q
      \<and> pl_id q = pl_id p"
    using toy_decode by blast
  have s: "\<forall>x. bcrypt_hashSync freshSaltEnv x \<noteq> hash ann"
    by (simp add: freshSaltEnv_def ann_def)
  have l: "\<forall>x. length (bcrypt_hashSync freshSaltEnv x) = length (hash ann)"
    by (simp add: freshSaltEnv_def ann_def del: take_append)
  have m: "requiredEmailSchema toyEnv (Some ''a@x.com'') = Parsed ''a@x.com''"
    by code_simp
  have f: "findFirst (\<lambda>x. email x = toLowerCase ''a@x.com'') (users annWorld) = Some ann"
    by code_simp
  have "fst (passwordResetLink toyEnv annWorld (Some ''a@x.com'')) = Inr None"
    by code_simp
  then have i: "passwordResetLink toyEnv annWorld (Some ''a@x.com'') = (Inr None, mailedWorld)"
    by (simp add: mailedWorld_def prod_eq_iff)
  have t: "validationToken toyEnv ann
      = jwt_sign toyEnv \<lparr>pl_id = Some (user_id ann), pl_email = Some (email ann)\<rparr>
          (hash ann) ''15m''"
    by (simp add: validationToken_def)
  have c: "c_token annTokenInput = Some (validationToken toyEnv ann)"
    by (simp add: annTokenInput_def)
  have p: "parseChange annTokenInput = Inr (validationToken toyEnv ann, ''New123'', ''New123'')"
    by code_simp
  have n: "validationToken toyEnv ann \<noteq> []" "user_id ann \<noteq> 0"
    by (simp_all add: toyEnv_def validationToken_def ann_def)
  have "fst (update freshSaltEnv mailedWorld annSession renameAndRekey) = Inr ()"
    by code_simp
  then have a: "update freshSaltEnv mailedWorld annSession renameAndRekey = (Inr (), rekeyedWorld)"
    by (simp add: rekeyedWorld_def prod_eq_iff)
  have "fst (changePasswordFromJwt freshSaltEnv mailedWorld annTokenInput)
      = Inr (ann\<lparr>hash := ''g:New123''\<rparr>)"
    by code_simp
  then have b: "changePasswordFromJwt freshSaltEnv mailedWorld annTokenInput
      = (Inr (ann\<lparr>hash := ''g:New123''\<rparr>), redeemedWorld)"
    by (simp add: redeemedWorld_def prod_eq_iff)
  have b': "user_id (ann\<lparr>hash := ''g:New123''\<rparr>) = user_id ann" by simp
  have before: "fst (changePasswordFromJwt toyEnv mailedWorld annTokenInput)
      = Inr (ann\<lparr>hash := ''h:New123''\<rparr>)"
    by code_simp
  have sa: "session_user_id annSession = user_id ann \<and> u_newPassword renameAndRekey \<noteq> None"
    by (simp add: annSession_def ann_def renameAndRekey_def)
  show ?thesis
    using stale_token_rejected [OF v d s l m f i t, of annSession renameAndRekey rekeyedWorld
        annTokenInput annTokenInput "''New123''"]
      stale_token_rejected [OF v d s l m f i t, of annSession renameAndRekey redeemedWorld
        annTokenInput annTokenInput "''New123''"]
      a b b' c p n before sa i
    by auto
qed

end
